theory Spec2Isabelle
  imports Main "HOL-Library.Word"
begin

section \<open>JavaScript strings\<close>

text \<open>
  A JavaScript string is a sequence of 16-bit code units. String literals of the source
  are written with \<open>js\<close>, which maps every (ASCII) character to its code unit.
\<close>

type_synonym code_unit = "16 word"
type_synonym jsstring = "code_unit list"

definition js :: "string \<Rightarrow> jsstring" where
  "js s = map of_char s"

text \<open>\<^verbatim>\<open>a.includes(b)\<close>: \<open>b\<close> occurs in \<open>a\<close> as a contiguous run of code units.\<close>

fun startsWith :: "jsstring \<Rightarrow> jsstring \<Rightarrow> bool" where
  "startsWith _ [] = True"
| "startsWith [] (_ # _) = False"
| "startsWith (a # as) (b # bs) = (a = b \<and> startsWith as bs)"

fun includesStr :: "jsstring \<Rightarrow> jsstring \<Rightarrow> bool" where
  "includesStr [] b = (b = [])"
| "includesStr (a # as) b = (startsWith (a # as) b \<or> includesStr as b)"

text \<open>\<^verbatim>\<open>xs.join(sep)\<close> on an array of strings.\<close>

fun join :: "jsstring \<Rightarrow> jsstring list \<Rightarrow> jsstring" where
  "join sep [] = []"
| "join sep [x] = x"
| "join sep (x # y # ys) = x @ sep @ join sep (y # ys)"





section \<open>utils/pgp.ts: formatFingerprint\<close>

text \<open>
  \<^verbatim>\<open>fingerprint.match(/.{1,4}/g)?.join(' ') ?? fingerprint\<close>

  Without the \<^verbatim>\<open>s\<close> flag the dot matches every code unit except the four line
  terminators. The global match scans from the left: a line terminator cannot start a
  match and is skipped; anywhere else the greedy quantifier takes as many code units as it
  can, at most four, stopping before a line terminator. With no match at all
  \<^verbatim>\<open>match\<close> returns \<^verbatim>\<open>null\<close> and the input is returned unchanged.
\<close>

definition isLineTerminator :: "code_unit \<Rightarrow> bool" where
  "isLineTerminator u \<longleftrightarrow> u = 0x000A \<or> u = 0x000D \<or> u = 0x2028 \<or> u = 0x2029"

definition dotRun :: "jsstring \<Rightarrow> jsstring" where
  "dotRun s = takeWhile (\<lambda>u. \<not> isLineTerminator u) (take 4 s)"

function matchAll :: "jsstring \<Rightarrow> jsstring list" where
  "matchAll [] = []"
| "matchAll (u # us) =
     (if isLineTerminator u then matchAll us
      else dotRun (u # us) # matchAll (drop (length (dotRun (u # us))) (u # us)))"
  by pat_completeness auto
termination
  by (relation "measure length") (auto simp: dotRun_def)

definition formatFingerprint :: "jsstring \<Rightarrow> jsstring" where
  "formatFingerprint fp =
     (case matchAll fp of
        [] \<Rightarrow> fp
      | m # ms \<Rightarrow> join (js '' '') (m # ms))"

text \<open>
  The grouping the specification describes, written from its words: cut the string into
  consecutive blocks of four characters (the last block may be shorter).
\<close>

function blocksOf4 :: "jsstring \<Rightarrow> jsstring list" where
  "blocksOf4 s = (if s = [] then [] else take 4 s # blocksOf4 (drop 4 s))"
  by pat_completeness auto
termination
  by (relation "measure length") auto

declare blocksOf4.simps [simp del]

definition isHexDigit :: "code_unit \<Rightarrow> bool" where
  "isHexDigit u \<longleftrightarrow>
     (0x30 \<le> u \<and> u \<le> 0x39) \<or> (0x41 \<le> u \<and> u \<le> 0x46) \<or> (0x61 \<le> u \<and> u \<le> 0x66)"


section \<open>utils/validation.ts: validateMessageSize\<close>










section \<open>Exceptions and promises\<close>

text \<open>
  A thrown value is either an \<^verbatim>\<open>Error\<close> object, of which the code reads the
  \<^verbatim>\<open>message\<close>, or any other value. The type of \<^verbatim>\<open>Error\<close> declares the message
  a string, but what is caught is \<^verbatim>\<open>unknown\<close> and the property can hold any value:
  a string; a value that is not a string but has an \<^verbatim>\<open>includes\<close> method (an array),
  with what that method answers for the text searched; or a value on which the call of
  \<^verbatim>\<open>includes\<close> throws a \<^verbatim>\<open>TypeError\<close>, with the message the engine gives that
  error. Thrown values are plain data: reading \<^verbatim>\<open>message\<close> and testing
  \<^verbatim>\<open>instanceof Error\<close> run no code of theirs.

  A call that may throw, and a promise that may reject, evaluate to \<open>Inl\<close> of the thrown
  value or \<open>Inr\<close> of the result; \<open>bindE\<close> is sequencing
  (\<^verbatim>\<open>const x = await p; ...\<close>) and an \<open>Inl\<close> at the end of an async function is an
  exception that reaches its caller.
\<close>

datatype message = Str jsstring | ArrayLike bool | NoIncludes jsstring

datatype exn = ErrorObj message | NonError

definition bindE :: "exn + 'a \<Rightarrow> ('a \<Rightarrow> exn + 'b) \<Rightarrow> exn + 'b" where
  "bindE m f = (case m of Inl e \<Rightarrow> Inl e | Inr v \<Rightarrow> f v)"

text \<open>
  \<^verbatim>\<open>Promise.all\<close>: the array of the results when every promise is fulfilled;
  otherwise it rejects with the reason of the promise that rejects first in time. Which
  one that is depends on the timing of the library: \<open>first\<close> is its index among the
  rejections, taken in array order.
\<close>

definition rejections :: "(exn + 'a) list \<Rightarrow> exn list" where
  "rejections ps = concat (map (\<lambda>p. case p of Inl e \<Rightarrow> [e] | Inr _ \<Rightarrow> []) ps)"

definition fulfilments :: "(exn + 'a) list \<Rightarrow> 'a list" where
  "fulfilments ps = concat (map (\<lambda>p. case p of Inl _ \<Rightarrow> [] | Inr v \<Rightarrow> [v]) ps)"

definition promiseAll :: "nat \<Rightarrow> (exn + 'a) list \<Rightarrow> exn + 'a list" where
  "promiseAll first ps =
     (if rejections ps = [] then Inr (fulfilments ps)
      else Inl (rejections ps ! (first mod length (rejections ps))))"

text \<open>\<^verbatim>\<open>error instanceof Error ? error.message : fallback\<close>\<close>

definition messageOr :: "exn \<Rightarrow> jsstring \<Rightarrow> message" where
  "messageOr e fallback = (case e of ErrorObj m \<Rightarrow> m | NonError \<Rightarrow> Str fallback)"

text \<open>\<^verbatim>\<open>errorMessage.includes(text)\<close>, on whatever value the message is.\<close>

definition includesCall :: "message \<Rightarrow> jsstring \<Rightarrow> exn + bool" where
  "includesCall errorMessage t =
     (case errorMessage of
        Str s \<Rightarrow> Inr (includesStr s t)
      | ArrayLike b \<Rightarrow> Inr b
      | NoIncludes typeErrorMessage \<Rightarrow> Inl (ErrorObj (Str typeErrorMessage)))"

text \<open>\<^verbatim>\<open>!passphrase\<close> for an optional string: \<^verbatim>\<open>undefined\<close> and the empty string.\<close>

definition isFalsy :: "jsstring option \<Rightarrow> bool" where
  "isFalsy s = (case s of None \<Rightarrow> True | Some v \<Rightarrow> v = [])"


section \<open>The OpenPGP library, as the wrapper sees it\<close>

text \<open>
  The library is external: the functions below take it as a parameter, a record with one
  field for each library function and key method the source calls. Keys and messages are
  opaque to the wrapper (type parameters); every call may throw. \<open>settlesFirst\<close> is the
  timing that \<^verbatim>\<open>Promise.all\<close> observes when several reads of keys reject. A
  \<^verbatim>\<open>Date\<close> is its time value in milliseconds.
\<close>

type_synonym date = int

datatype ExpirationTime = ExpDate date | ExpInfinity | ExpNull

record AlgorithmInfo =
  ai_algorithm :: jsstring
  ai_bits :: "nat option"
  ai_curve :: "jsstring option"

record Subkey =
  sk_getAlgorithmInfo :: "exn + AlgorithmInfo"
  sk_getExpirationTime :: "exn + ExpirationTime"
  sk_getKeyID :: "exn + jsstring"
  sk_getCreationTime :: "exn + date"

text \<open>
  One entry of \<^verbatim>\<open>verificationResult.signatures\<close>: the promise \<^verbatim>\<open>verified\<close> and
  the promise \<^verbatim>\<open>signature\<close>, the latter resolved to what the source reads of it,
  \<^verbatim>\<open>packets?.[0]?.created\<close> when that is a \<^verbatim>\<open>Date\<close>.
\<close>

record SignatureEntry =
  verified :: "exn + bool"
  signature :: "exn + date option"

record VerificationResult =
  signatures :: "SignatureEntry list"
  vdata :: "jsstring option"

record ('key, 'msg, 'ctm) openpgp =
  readKey :: "jsstring \<Rightarrow> exn + 'key"
  readPrivateKey :: "jsstring \<Rightarrow> exn + 'key"
  decryptKey :: "'key \<Rightarrow> jsstring \<Rightarrow> exn + 'key"
  createMessage :: "jsstring \<Rightarrow> exn + 'msg"
  createCleartextMessage :: "jsstring \<Rightarrow> exn + 'ctm"
  readMessage :: "jsstring \<Rightarrow> exn + 'msg"
  readCleartextMessage :: "jsstring \<Rightarrow> exn + 'ctm"
  encrypt :: "'msg \<Rightarrow> 'key list \<Rightarrow> exn + jsstring"
  decrypt :: "'msg \<Rightarrow> 'key \<Rightarrow> exn + jsstring"
  sign :: "'ctm + 'msg \<Rightarrow> 'key \<Rightarrow> bool \<Rightarrow> exn + jsstring"
  verify :: "'ctm + 'msg \<Rightarrow> 'key \<Rightarrow> exn + VerificationResult"
  isDecrypted :: "'key \<Rightarrow> exn + bool"
  getExpirationTime :: "'key \<Rightarrow> exn + ExpirationTime"
  getFingerprint :: "'key \<Rightarrow> exn + jsstring"
  getUserIDs :: "'key \<Rightarrow> exn + jsstring list"
  getAlgorithmInfo :: "'key \<Rightarrow> exn + AlgorithmInfo"
  getCreationTime :: "'key \<Rightarrow> exn + date"
  getKeyID :: "'key \<Rightarrow> exn + jsstring"
  getSubkeys :: "'key \<Rightarrow> exn + Subkey list"
  getSigningKey :: "'key \<Rightarrow> exn + unit"
  getEncryptionKey :: "'key \<Rightarrow> exn + unit"
  settlesFirst :: nat



section \<open>utils/pgp.ts: the wrapper functions\<close>

text \<open>
  Every wrapper function \<open>f\<close> of the source is one \<^verbatim>\<open>try\<close> block with a
  \<^verbatim>\<open>catch\<close> handler: \<open>f_try\<close> is the body of the block, and \<open>f\<close> applies the handler
  to what the body throws. Fields of records carry a short prefix where the source uses
  one name in several interfaces.
\<close>

record KeyInfo =
  ki_fingerprint :: jsstring
  ki_userIds :: "jsstring list"
  ki_algorithm :: jsstring
  ki_created :: date
  ki_expirationDate :: "date option"
  ki_isExpired :: bool
  ki_isEncrypted :: "bool option"

text \<open>\<^verbatim>\<open>EncryptResult\<close>, \<^verbatim>\<open>DecryptResult\<close> and \<^verbatim>\<open>SignResult\<close> have the same shape.\<close>

record OpResult =
  success :: bool
  data :: "jsstring option"
  error :: "message option"

type_synonym DecryptResult = OpResult
type_synonym SignResult = OpResult

record VerifyResult =
  v_success :: bool
  v_valid :: "bool option"
  v_signedBy :: "jsstring option"
  v_signedAt :: "date option"
  v_message :: "jsstring option"
  v_error :: "message option"









text \<open>
  \<open>decryptMessage\<close>. The passphrase is optional (\<open>None\<close> is \<^verbatim>\<open>undefined\<close>). The
  statements after the unlocking of the key (lines 158 to 168) are \<open>decryptMessage_rest\<close>;
  the two early returns of the unlocking end the function with a result. The
  \<^verbatim>\<open>catch\<close> handler calls \<^verbatim>\<open>errorMessage.includes\<close> outside any \<^verbatim>\<open>try\<close>: what
  that call throws leaves the function.
\<close>

definition passphraseRequired :: OpResult where
  "passphraseRequired =
     \<lparr> success = False, data = None,
       error = Some (Str (js ''This private key is protected by a passphrase. Please enter your passphrase.'')) \<rparr>"

definition incorrectPassphrase :: OpResult where
  "incorrectPassphrase =
     \<lparr> success = False, data = None,
       error = Some (Str (js ''Incorrect passphrase. Please try again.'')) \<rparr>"

definition wrongKey :: OpResult where
  "wrongKey =
     \<lparr> success = False, data = None,
       error = Some (Str (js ''Could not decrypt this message. Make sure you're using the correct private key.'')) \<rparr>"

definition decryptMessage_rest ::
  "('key, 'msg, 'ctm) openpgp \<Rightarrow> jsstring \<Rightarrow> 'key \<Rightarrow> exn + DecryptResult" where
  "decryptMessage_rest lib encryptedMessage privateKey =
     bindE (readMessage lib encryptedMessage) (\<lambda>m.
     bindE (decrypt lib m privateKey) (\<lambda>decrypted.
     Inr \<lparr> success = True, data = Some decrypted, error = None \<rparr>))"

definition decryptMessage_try ::
  "('key, 'msg, 'ctm) openpgp \<Rightarrow> jsstring \<Rightarrow> jsstring \<Rightarrow> jsstring option \<Rightarrow> exn + DecryptResult" where
  "decryptMessage_try lib encryptedMessage armoredPrivateKey passphrase =
     bindE (readPrivateKey lib armoredPrivateKey) (\<lambda>privateKey.
     bindE (isDecrypted lib privateKey) (\<lambda>decrypted.
     if \<not> decrypted then
       (if isFalsy passphrase then Inr passphraseRequired
        else (case decryptKey lib privateKey (the passphrase) of
                Inl _ \<Rightarrow> Inr incorrectPassphrase
              | Inr unlocked \<Rightarrow> decryptMessage_rest lib encryptedMessage unlocked))
     else decryptMessage_rest lib encryptedMessage privateKey))"

definition decryptMessage ::
  "('key, 'msg, 'ctm) openpgp \<Rightarrow> jsstring \<Rightarrow> jsstring \<Rightarrow> jsstring option \<Rightarrow> exn + DecryptResult" where
  "decryptMessage lib encryptedMessage armoredPrivateKey passphrase =
     (case decryptMessage_try lib encryptedMessage armoredPrivateKey passphrase of
        Inr r \<Rightarrow> Inr r
      | Inl e \<Rightarrow>
          (let errorMessage = messageOr e (js ''Decryption failed'')
           in bindE (includesCall errorMessage (js ''Session key decryption failed'')) (\<lambda>found.
              if found then Inr wrongKey else Inr wrongKey)))"

text \<open>\<open>signMessage\<close>; \<open>detached\<close> defaults to \<open>False\<close> in the source.\<close>

definition signMessage_rest ::
  "('key, 'msg, 'ctm) openpgp \<Rightarrow> jsstring \<Rightarrow> 'key \<Rightarrow> bool \<Rightarrow> exn + SignResult" where
  "signMessage_rest lib msg privateKey detached =
     (if detached then
        bindE (createMessage lib msg) (\<lambda>messageObj.
        bindE (sign lib (Inr messageObj) privateKey True) (\<lambda>sg.
        Inr \<lparr> success = True, data = Some sg, error = None \<rparr>))
      else
        bindE (createCleartextMessage lib msg) (\<lambda>cleartextMessage.
        bindE (sign lib (Inl cleartextMessage) privateKey False) (\<lambda>signedMessage.
        Inr \<lparr> success = True, data = Some signedMessage, error = None \<rparr>)))"

definition signMessage_try ::
  "('key, 'msg, 'ctm) openpgp \<Rightarrow> jsstring \<Rightarrow> jsstring \<Rightarrow> jsstring option \<Rightarrow> bool
    \<Rightarrow> exn + SignResult" where
  "signMessage_try lib msg armoredPrivateKey passphrase detached =
     bindE (readPrivateKey lib armoredPrivateKey) (\<lambda>privateKey.
     bindE (isDecrypted lib privateKey) (\<lambda>decrypted.
     if \<not> decrypted then
       (if isFalsy passphrase then Inr passphraseRequired
        else (case decryptKey lib privateKey (the passphrase) of
                Inl _ \<Rightarrow> Inr incorrectPassphrase
              | Inr unlocked \<Rightarrow> signMessage_rest lib msg unlocked detached))
     else signMessage_rest lib msg privateKey detached))"

definition signMessage ::
  "('key, 'msg, 'ctm) openpgp \<Rightarrow> jsstring \<Rightarrow> jsstring \<Rightarrow> jsstring option \<Rightarrow> bool
    \<Rightarrow> exn + SignResult" where
  "signMessage lib msg armoredPrivateKey passphrase detached =
     (case signMessage_try lib msg armoredPrivateKey passphrase detached of
        Inr r \<Rightarrow> Inr r
      | Inl e \<Rightarrow> Inr \<lparr> success = False, data = None,
                        error = Some (messageOr e (js ''Signing failed'')) \<rparr>)"

text \<open>
  \<open>verifySignature\<close>. Destructuring \<^verbatim>\<open>signatures[0]\<close> of an empty array throws a
  \<^verbatim>\<open>TypeError\<close>, an \<^verbatim>\<open>Error\<close> whose message is the engine's (the text below is
  V8's). The inner \<^verbatim>\<open>try\<close> covers the two awaits and the evaluation of the returned
  object, so also \<^verbatim>\<open>publicKey.getUserIDs()\<close>.
\<close>

definition destructureTypeError :: exn where
  "destructureTypeError =
     ErrorObj (Str (js ''Cannot destructure property 'verified' of 'verificationResult.signatures[0]' as it is undefined.''))"

definition signatureInvalid :: VerifyResult where
  "signatureInvalid =
     \<lparr> v_success = True, v_valid = Some False, v_signedBy = None, v_signedAt = None,
       v_message = None,
       v_error = Some (Str (js ''Signature verification failed. The message may have been tampered with or signed by a different key.'')) \<rparr>"

text \<open>\<^verbatim>\<open>publicKey.getUserIDs()[0] || 'Unknown'\<close>\<close>

definition firstUserIdOrUnknown :: "jsstring list \<Rightarrow> jsstring" where
  "firstUserIdOrUnknown ids =
     (case ids of [] \<Rightarrow> js ''Unknown'' | u # _ \<Rightarrow> if u = [] then js ''Unknown'' else u)"

definition readSigned ::
  "('key, 'msg, 'ctm) openpgp \<Rightarrow> jsstring \<Rightarrow> exn + ('ctm + 'msg)" where
  "readSigned lib signedMessage =
     (case readCleartextMessage lib signedMessage of
        Inr m \<Rightarrow> Inr (Inl m)
      | Inl _ \<Rightarrow> bindE (readMessage lib signedMessage) (\<lambda>m. Inr (Inr m)))"

definition verifySignature_inner ::
  "('key, 'msg, 'ctm) openpgp \<Rightarrow> 'key \<Rightarrow> VerificationResult \<Rightarrow> SignatureEntry \<Rightarrow> exn + VerifyResult" where
  "verifySignature_inner lib publicKey verificationResult entry =
     bindE (verified entry) (\<lambda>_.
     bindE (signature entry) (\<lambda>signedAt.
     bindE (getUserIDs lib publicKey) (\<lambda>ids.
     Inr \<lparr> v_success = True, v_valid = Some True,
           v_signedBy = Some (firstUserIdOrUnknown ids), v_signedAt = signedAt,
           v_message = vdata verificationResult, v_error = None \<rparr>)))"

definition verifySignature_try ::
  "('key, 'msg, 'ctm) openpgp \<Rightarrow> jsstring \<Rightarrow> jsstring \<Rightarrow> exn + VerifyResult" where
  "verifySignature_try lib signedMessage armoredPublicKey =
     bindE (readKey lib armoredPublicKey) (\<lambda>publicKey.
     bindE (readSigned lib signedMessage) (\<lambda>m.
     bindE (verify lib m publicKey) (\<lambda>verificationResult.
     (case signatures verificationResult of
        [] \<Rightarrow> Inl destructureTypeError
      | entry # _ \<Rightarrow>
          (case verifySignature_inner lib publicKey verificationResult entry of
             Inr r \<Rightarrow> Inr r
           | Inl _ \<Rightarrow> Inr signatureInvalid)))))"

definition verifySignature ::
  "('key, 'msg, 'ctm) openpgp \<Rightarrow> jsstring \<Rightarrow> jsstring \<Rightarrow> exn + VerifyResult" where
  "verifySignature lib signedMessage armoredPublicKey =
     (case verifySignature_try lib signedMessage armoredPublicKey of
        Inr r \<Rightarrow> Inr r
      | Inl e \<Rightarrow> Inr \<lparr> v_success = False, v_valid = None, v_signedBy = None,
                        v_signedAt = None, v_message = None,
                        v_error = Some (messageOr e (js ''Could not verify the signature.'')) \<rparr>)"














section \<open>hooks/useDecrypt.ts\<close>

text \<open>
  The state of the hook and, for every \<^verbatim>\<open>setState\<close> call of the source, the function it
  applies to the previous state. The asynchronous operations (\<^verbatim>\<open>validateKey\<close>,
  \<^verbatim>\<open>decrypt\<close>) are sequences of such calls; the values they computed from the closure
  and from the library are the arguments.
\<close>

record UseDecryptState =
  dec_privateKey :: jsstring
  dec_passphrase :: jsstring
  dec_encryptedMessage :: jsstring
  decryptedOutput :: jsstring
  dec_keyInfo :: "KeyInfo option"
  dec_error :: "jsstring option"
  dec_isLoading :: bool
  needsPassphrase :: bool

definition initialDecryptState :: UseDecryptState where
  "initialDecryptState =
     \<lparr> dec_privateKey = [], dec_passphrase = [], dec_encryptedMessage = [],
       decryptedOutput = [], dec_keyInfo = None, dec_error = None,
       dec_isLoading = False, needsPassphrase = False \<rparr>"

definition clearAllDecrypt :: "UseDecryptState \<Rightarrow> UseDecryptState" where
  "clearAllDecrypt prev =
     \<lparr> dec_privateKey = [], dec_passphrase = [], dec_encryptedMessage = [],
       decryptedOutput = [], dec_keyInfo = None, dec_error = None,
       dec_isLoading = False, needsPassphrase = False \<rparr>"

datatype DecryptEvent =
    SetPrivateKey jsstring
  | SetPassphrase jsstring
  | SetEncryptedMessage jsstring
  | ValidateKeyRejected "jsstring option"
  | ValidateKeyAccepted KeyInfo
  | DecryptStarted
  | DecryptRejected "jsstring option"
  | DecryptSucceeded jsstring
  | DecryptNeedsPassphrase "jsstring option"
  | DecryptFailed jsstring
  | DecryptClearAll

fun stepDecrypt :: "DecryptEvent \<Rightarrow> UseDecryptState \<Rightarrow> UseDecryptState" where
  "stepDecrypt (SetPrivateKey k) prev =
     prev\<lparr> dec_privateKey := k, dec_keyInfo := None, dec_error := None, needsPassphrase := False \<rparr>"
| "stepDecrypt (SetPassphrase p) prev = prev\<lparr> dec_passphrase := p, dec_error := None \<rparr>"
| "stepDecrypt (SetEncryptedMessage m) prev = prev\<lparr> dec_encryptedMessage := m, dec_error := None \<rparr>"
| "stepDecrypt (ValidateKeyRejected e) prev = prev\<lparr> dec_error := e, dec_keyInfo := None \<rparr>"
| "stepDecrypt (ValidateKeyAccepted ki) prev =
     prev\<lparr> dec_keyInfo := Some ki,
           needsPassphrase := (case ki_isEncrypted ki of Some b \<Rightarrow> b | None \<Rightarrow> False),
           dec_error := None \<rparr>"
| "stepDecrypt DecryptStarted prev =
     prev\<lparr> dec_isLoading := True, dec_error := None, decryptedOutput := [] \<rparr>"
| "stepDecrypt (DecryptRejected e) prev = prev\<lparr> dec_isLoading := False, dec_error := e \<rparr>"
| "stepDecrypt (DecryptSucceeded d) prev =
     prev\<lparr> dec_isLoading := False, decryptedOutput := d, dec_error := None \<rparr>"
| "stepDecrypt (DecryptNeedsPassphrase e) prev =
     prev\<lparr> dec_isLoading := False, needsPassphrase := True, dec_error := e \<rparr>"
| "stepDecrypt (DecryptFailed e) prev = prev\<lparr> dec_isLoading := False, dec_error := Some e \<rparr>"
| "stepDecrypt DecryptClearAll prev = clearAllDecrypt prev"

definition runDecrypt :: "DecryptEvent list \<Rightarrow> UseDecryptState" where
  "runDecrypt evs = foldl (\<lambda>s e. stepDecrypt e s) initialDecryptState evs"


section \<open>hooks/useEncrypt.ts\<close>

text \<open>
  The hook \<^verbatim>\<open>useEncrypt\<close> (in the sources at hand it follows \<^verbatim>\<open>useDropZone\<close> in
  hooks/useDropZone.ts), modelled as \<^verbatim>\<open>useDecrypt\<close> is: one function for every
  \<^verbatim>\<open>setState\<close> call. \<^verbatim>\<open>createRecipient\<close> draws the id of the new recipient with
  \<^verbatim>\<open>Math.random().toString(36).substring(2, 9)\<close>; the drawn id is the argument
  \<open>rid\<close> here, and of every function that calls it.
\<close>

record Recipient =
  rec_id :: jsstring
  rec_key :: jsstring
  rec_keyInfo :: "KeyInfo option"
  rec_error :: "jsstring option"

record UseEncryptState =
  recipients :: "Recipient list"
  enc_message :: jsstring
  encryptedOutput :: jsstring
  enc_error :: "jsstring option"
  enc_isLoading :: bool
  encryptToSelf :: bool
  selfKey :: jsstring
  selfKeyInfo :: "KeyInfo option"
  selfKeyError :: "jsstring option"

definition createRecipient :: "jsstring \<Rightarrow> Recipient" where
  "createRecipient rid = \<lparr> rec_id = rid, rec_key = [], rec_keyInfo = None, rec_error = None \<rparr>"

definition initialEncryptState :: "jsstring \<Rightarrow> UseEncryptState" where
  "initialEncryptState rid =
     \<lparr> recipients = [createRecipient rid], enc_message = [], encryptedOutput = [],
       enc_error = None, enc_isLoading = False, encryptToSelf = False, selfKey = [],
       selfKeyInfo = None, selfKeyError = None \<rparr>"

definition setPublicKey :: "jsstring \<Rightarrow> jsstring \<Rightarrow> UseEncryptState \<Rightarrow> UseEncryptState" where
  "setPublicKey k rid prev =
     (let newRecipients = (if length (recipients prev) = 0 then [createRecipient rid]
                           else recipients prev)
      in prev\<lparr> recipients :=
                 (hd newRecipients)\<lparr> rec_key := k, rec_keyInfo := None, rec_error := None \<rparr>
                 # tl newRecipients,
               enc_error := None \<rparr>)"

definition addRecipient :: "jsstring \<Rightarrow> UseEncryptState \<Rightarrow> UseEncryptState" where
  "addRecipient rid prev =
     (if length (recipients prev) \<ge> 10 then prev
      else prev\<lparr> recipients := recipients prev @ [createRecipient rid], enc_error := None \<rparr>)"

definition removeRecipient :: "jsstring \<Rightarrow> UseEncryptState \<Rightarrow> UseEncryptState" where
  "removeRecipient i prev =
     (if length (recipients prev) \<le> 1 then prev
      else prev\<lparr> recipients := filter (\<lambda>r. rec_id r \<noteq> i) (recipients prev),
                  enc_error := None \<rparr>)"

definition updateRecipient :: "jsstring \<Rightarrow> jsstring \<Rightarrow> UseEncryptState \<Rightarrow> UseEncryptState" where
  "updateRecipient i k prev =
     prev\<lparr> recipients :=
             map (\<lambda>r. if rec_id r = i
                      then r\<lparr> rec_key := k, rec_keyInfo := None, rec_error := None \<rparr> else r)
               (recipients prev),
           enc_error := None \<rparr>"

text \<open>The three \<^verbatim>\<open>setState\<close> calls of \<^verbatim>\<open>validateRecipient\<close>: two reject, one accepts.\<close>

definition validateRecipient_rejected ::
  "jsstring \<Rightarrow> jsstring option \<Rightarrow> UseEncryptState \<Rightarrow> UseEncryptState" where
  "validateRecipient_rejected i e prev =
     prev\<lparr> recipients :=
             map (\<lambda>r. if rec_id r = i then r\<lparr> rec_error := e, rec_keyInfo := None \<rparr> else r)
               (recipients prev) \<rparr>"

definition validateRecipient_accepted ::
  "jsstring \<Rightarrow> KeyInfo \<Rightarrow> UseEncryptState \<Rightarrow> UseEncryptState" where
  "validateRecipient_accepted i parsedKeyInfo prev =
     prev\<lparr> recipients :=
             map (\<lambda>r. if rec_id r = i
                      then r\<lparr> rec_keyInfo := Some parsedKeyInfo, rec_error := None \<rparr> else r)
               (recipients prev) \<rparr>"

definition setEncryptToSelf :: "bool \<Rightarrow> UseEncryptState \<Rightarrow> UseEncryptState" where
  "setEncryptToSelf enabled prev = prev\<lparr> encryptToSelf := enabled, selfKeyError := None \<rparr>"

definition setSelfKey :: "jsstring \<Rightarrow> UseEncryptState \<Rightarrow> UseEncryptState" where
  "setSelfKey k prev = prev\<lparr> selfKey := k, selfKeyInfo := None, selfKeyError := None \<rparr>"

definition validateSelfKey_rejected :: "jsstring option \<Rightarrow> UseEncryptState \<Rightarrow> UseEncryptState" where
  "validateSelfKey_rejected e prev = prev\<lparr> selfKeyError := e, selfKeyInfo := None \<rparr>"

definition validateSelfKey_accepted :: "KeyInfo \<Rightarrow> UseEncryptState \<Rightarrow> UseEncryptState" where
  "validateSelfKey_accepted parsedKeyInfo prev =
     prev\<lparr> selfKeyInfo := Some parsedKeyInfo, selfKeyError := None \<rparr>"

definition setMessage :: "jsstring \<Rightarrow> UseEncryptState \<Rightarrow> UseEncryptState" where
  "setMessage m prev = prev\<lparr> enc_message := m, enc_error := None \<rparr>"

text \<open>The \<^verbatim>\<open>setState\<close> calls of \<^verbatim>\<open>encrypt\<close>, in the order of the source.\<close>

definition encrypt_started :: "UseEncryptState \<Rightarrow> UseEncryptState" where
  "encrypt_started prev = prev\<lparr> enc_isLoading := True, enc_error := None, encryptedOutput := [] \<rparr>"

definition encrypt_failed :: "jsstring option \<Rightarrow> UseEncryptState \<Rightarrow> UseEncryptState" where
  "encrypt_failed e prev = prev\<lparr> enc_isLoading := False, enc_error := e \<rparr>"

definition encrypt_keyInvalid ::
  "jsstring \<Rightarrow> jsstring option \<Rightarrow> UseEncryptState \<Rightarrow> UseEncryptState" where
  "encrypt_keyInvalid i e prev =
     prev\<lparr> enc_isLoading := False,
           recipients := map (\<lambda>r. if rec_id r = i then r\<lparr> rec_error := e \<rparr> else r)
                           (recipients prev),
           enc_error := Some (js ''One or more keys are invalid'') \<rparr>"

definition encrypt_selfKeyInvalid :: "jsstring option \<Rightarrow> UseEncryptState \<Rightarrow> UseEncryptState" where
  "encrypt_selfKeyInvalid e prev = prev\<lparr> enc_isLoading := False, selfKeyError := e \<rparr>"

definition encrypt_succeeded :: "jsstring \<Rightarrow> UseEncryptState \<Rightarrow> UseEncryptState" where
  "encrypt_succeeded d prev =
     prev\<lparr> enc_isLoading := False, encryptedOutput := d, enc_error := None \<rparr>"

definition clearAll :: "jsstring \<Rightarrow> UseEncryptState \<Rightarrow> UseEncryptState" where
  "clearAll rid prev =
     \<lparr> recipients = [createRecipient rid], enc_message = [], encryptedOutput = [],
       enc_error = None, enc_isLoading = False, encryptToSelf = False, selfKey = [],
       selfKeyInfo = None, selfKeyError = None \<rparr>"

datatype EncryptEvent =
    SetPublicKey jsstring jsstring
  | AddRecipient jsstring
  | RemoveRecipient jsstring
  | UpdateRecipient jsstring jsstring
  | ValidateRecipientRejected jsstring "jsstring option"
  | ValidateRecipientAccepted jsstring KeyInfo
  | SetEncryptToSelf bool
  | SetSelfKey jsstring
  | ValidateSelfKeyRejected "jsstring option"
  | ValidateSelfKeyAccepted KeyInfo
  | SetMessage jsstring
  | EncryptStarted
  | EncryptFailed "jsstring option"
  | EncryptKeyInvalid jsstring "jsstring option"
  | EncryptSelfKeyInvalid "jsstring option"
  | EncryptSucceeded jsstring
  | ClearAll jsstring

fun stepEncrypt :: "EncryptEvent \<Rightarrow> UseEncryptState \<Rightarrow> UseEncryptState" where
  "stepEncrypt (SetPublicKey k rid) = setPublicKey k rid"
| "stepEncrypt (AddRecipient rid) = addRecipient rid"
| "stepEncrypt (RemoveRecipient i) = removeRecipient i"
| "stepEncrypt (UpdateRecipient i k) = updateRecipient i k"
| "stepEncrypt (ValidateRecipientRejected i e) = validateRecipient_rejected i e"
| "stepEncrypt (ValidateRecipientAccepted i ki) = validateRecipient_accepted i ki"
| "stepEncrypt (SetEncryptToSelf b) = setEncryptToSelf b"
| "stepEncrypt (SetSelfKey k) = setSelfKey k"
| "stepEncrypt (ValidateSelfKeyRejected e) = validateSelfKey_rejected e"
| "stepEncrypt (ValidateSelfKeyAccepted ki) = validateSelfKey_accepted ki"
| "stepEncrypt (SetMessage m) = setMessage m"
| "stepEncrypt EncryptStarted = encrypt_started"
| "stepEncrypt (EncryptFailed e) = encrypt_failed e"
| "stepEncrypt (EncryptKeyInvalid i e) = encrypt_keyInvalid i e"
| "stepEncrypt (EncryptSelfKeyInvalid e) = encrypt_selfKeyInvalid e"
| "stepEncrypt (EncryptSucceeded d) = encrypt_succeeded d"
| "stepEncrypt (ClearAll rid) = clearAll rid"

text \<open>The states a session reaches: \<open>rid\<close> is the id drawn at mount.\<close>

definition runEncrypt :: "jsstring \<Rightarrow> EncryptEvent list \<Rightarrow> UseEncryptState" where
  "runEncrypt rid evs = foldl (\<lambda>s e. stepEncrypt e s) (initialEncryptState rid) evs"

text \<open>The events other than adding, removing and clearing.\<close>

fun keepsCount :: "EncryptEvent \<Rightarrow> bool" where
  "keepsCount (AddRecipient _) = False"
| "keepsCount (RemoveRecipient _) = False"
| "keepsCount (ClearAll _) = False"
| "keepsCount _ = True"

section \<open>A small library for concrete runs\<close>

text \<open>
  Concrete runs of the wrapper need a concrete library. \<open>demoLib\<close> is a small one with
  the failure modes of the real library: armored text that does not parse, a private key
  locked by a passphrase, a message encrypted to another key, a signature that does not
  match its text, a message without signature. A key is its owner and its lock; a
  ciphertext is the letter E, the owner and the text; a clear-signed message is the letter
  S, the text and the signature (a copy of the text).
\<close>

datatype DemoKey = DemoKey (owner: nat) (lock: "jsstring option")

definition misformed :: exn where
  "misformed = ErrorObj (Str (js ''Misformed armored text''))"

definition demoReadKey :: "jsstring \<Rightarrow> exn + DemoKey" where
  "demoReadKey s =
     (if s = js ''alice.pub'' then Inr (DemoKey 1 None)
      else if s = js ''bob.pub'' then Inr (DemoKey 2 None)
      else Inl misformed)"

definition demoReadPrivateKey :: "jsstring \<Rightarrow> exn + DemoKey" where
  "demoReadPrivateKey s =
     (if s = js ''alice.sec'' then Inr (DemoKey 1 None)
      else if s = js ''bob.sec'' then Inr (DemoKey 2 (Some (js ''correct-passphrase'')))
      else Inl misformed)"

definition demoDecryptKey :: "DemoKey \<Rightarrow> jsstring \<Rightarrow> exn + DemoKey" where
  "demoDecryptKey k p =
     (if lock k = Some p then Inr (DemoKey (owner k) None)
      else Inl (ErrorObj (Str (js ''Incorrect key passphrase''))))"

definition demoReadMessage :: "jsstring \<Rightarrow> exn + (nat option \<times> jsstring)" where
  "demoReadMessage s =
     (case s of
        e # w # t \<Rightarrow> if e = of_char CHR ''E'' then Inr (Some (unat w), t) else Inl misformed
      | _ \<Rightarrow> Inl misformed)"

definition demoReadCleartextMessage :: "jsstring \<Rightarrow> exn + (jsstring \<times> jsstring)" where
  "demoReadCleartextMessage s =
     (case s of
        c # body \<Rightarrow>
          if c = of_char CHR ''S'' \<and> even (length body)
          then Inr (take (length body div 2) body, drop (length body div 2) body)
          else Inl misformed
      | [] \<Rightarrow> Inl misformed)"

definition demoEncrypt :: "nat option \<times> jsstring \<Rightarrow> DemoKey list \<Rightarrow> exn + jsstring" where
  "demoEncrypt m ks =
     (case ks of
        [] \<Rightarrow> Inl (ErrorObj (Str (js ''No encryption keys provided'')))
      | k # _ \<Rightarrow> Inr (of_char CHR ''E'' # of_nat (owner k) # snd m))"

definition demoDecrypt :: "nat option \<times> jsstring \<Rightarrow> DemoKey \<Rightarrow> exn + jsstring" where
  "demoDecrypt m k =
     (if lock k \<noteq> None
      then Inl (ErrorObj (Str (js ''Error decrypting message: Decryption key is not decrypted.'')))
      else if fst m = Some (owner k) then Inr (snd m)
      else Inl (ErrorObj (Str (js ''Error decrypting message: Session key decryption failed.''))))"

definition demoSign ::
  "(jsstring \<times> jsstring) + (nat option \<times> jsstring) \<Rightarrow> DemoKey \<Rightarrow> bool \<Rightarrow> exn + jsstring" where
  "demoSign m k detached =
     (if lock k \<noteq> None
      then Inl (ErrorObj (Str (js ''Error signing message: Signing key is not decrypted.'')))
      else (case m of
              Inl c \<Rightarrow> Inr (of_char CHR ''S'' # fst c @ fst c)
            | Inr t \<Rightarrow> Inr (of_char CHR ''D'' # snd t)))"

definition demoVerify ::
  "(jsstring \<times> jsstring) + (nat option \<times> jsstring) \<Rightarrow> DemoKey \<Rightarrow> exn + VerificationResult" where
  "demoVerify m k =
     (case m of
        Inl c \<Rightarrow>
          Inr \<lparr> signatures =
                  [\<lparr> verified = (if snd c = fst c then Inr True
                                  else Inl (ErrorObj (Str (js ''Signed digest did not match'')))),
                     signature = Inr (Some 1704067200000) \<rparr>],
                vdata = Some (fst c) \<rparr>
      | Inr t \<Rightarrow> Inr \<lparr> signatures = [], vdata = Some (snd t) \<rparr>)"

definition demoLib :: "(DemoKey, nat option \<times> jsstring, jsstring \<times> jsstring) openpgp" where
  "demoLib =
     \<lparr> readKey = demoReadKey,
       readPrivateKey = demoReadPrivateKey,
       decryptKey = demoDecryptKey,
       createMessage = (\<lambda>t. Inr (None, t)),
       createCleartextMessage = (\<lambda>t. Inr (t, [])),
       readMessage = demoReadMessage,
       readCleartextMessage = demoReadCleartextMessage,
       encrypt = demoEncrypt,
       decrypt = demoDecrypt,
       sign = demoSign,
       verify = demoVerify,
       isDecrypted = (\<lambda>k. Inr (lock k = None)),
       getExpirationTime = (\<lambda>k. Inr ExpInfinity),
       getFingerprint = (\<lambda>k. Inr (js ''0123456789abcdef0123456789abcdef01234567'')),
       getUserIDs = (\<lambda>k. Inr [js ''Test User <test@example.com>'']),
       getAlgorithmInfo =
         (\<lambda>k. Inr \<lparr> ai_algorithm = js ''eddsa'', ai_bits = None,
                     ai_curve = Some (js ''ed25519'') \<rparr>),
       getCreationTime = (\<lambda>k. Inr 1704067200000),
       getKeyID = (\<lambda>k. Inr (js ''89abcdef01234567'')),
       getSubkeys = (\<lambda>k. Inr []),
       getSigningKey = (\<lambda>k. Inr ()),
       getEncryptionKey = (\<lambda>k. Inr ()),
       settlesFirst = 0 \<rparr>"






text \<open>
  OpenPGP.js stores the text of a message with canonical line endings and returns the
  decrypted text with native ones, so that a CR LF of the plaintext comes back as LF.
  \<open>textLib\<close> is the demo library with that behaviour.
\<close>

fun nativeEOL :: "jsstring \<Rightarrow> jsstring" where
  "nativeEOL (a # b # rest) =
     (if a = 0x0D \<and> b = 0x0A then 0x0A # nativeEOL rest else a # nativeEOL (b # rest))"
| "nativeEOL [a] = [a]"
| "nativeEOL [] = []"

definition textLib :: "(DemoKey, nat option \<times> jsstring, jsstring \<times> jsstring) openpgp" where
  "textLib =
     demoLib\<lparr> decrypt := (\<lambda>m k. case demoDecrypt m k of
                                      Inl e \<Rightarrow> Inl e
                                    | Inr t \<Rightarrow> Inr (nativeEOL t)) \<rparr>"


section \<open>What the library says of a signed payload\<close>




section \<open>Message size\<close>













section \<open>Fingerprint formatting\<close>

lemma dotRun_noLT:
  "\<forall>u\<in>set s. \<not> isLineTerminator u \<Longrightarrow> dotRun s = take 4 s"
  unfolding dotRun_def by (simp add: takeWhile_eq_all_conv) (meson in_set_takeD)

lemma matchAll_noLT:
  "\<forall>u\<in>set s. \<not> isLineTerminator u \<Longrightarrow> matchAll s = blocksOf4 s"
proof (induction s rule: blocksOf4.induct)
  case (1 s)
  show ?case
  proof (cases s)
    case Nil
    then show ?thesis by (simp add: blocksOf4.simps)
  next
    case (Cons u us)
    have dr: "dotRun s = take 4 s"
      using "1.prems" by (rule dotRun_noLT)
    have dl: "drop (length (take 4 s)) s = drop 4 s"
      by (cases "4 \<le> length s") (simp_all add: min_def)
    have nl: "\<forall>x\<in>set (drop 4 s). \<not> isLineTerminator x"
      using "1.prems" by (meson in_set_dropD)
    have ne: "s \<noteq> []" using Cons by simp
    have ih: "matchAll (drop 4 s) = blocksOf4 (drop 4 s)"
      using "1.IH" [OF ne nl] .
    have nu: "\<not> isLineTerminator u" using "1.prems" Cons by simp
    have "matchAll s = dotRun s # matchAll (drop (length (dotRun s)) s)"
      unfolding Cons using nu by simp
    also have "\<dots> = take 4 s # blocksOf4 (drop 4 s)"
      by (simp only: dr dl ih)
    also have "\<dots> = blocksOf4 s"
      using ne by (subst (2) blocksOf4.simps) simp
    finally show ?thesis .
  qed
qed

lemma length_join:
  "xs \<noteq> [] \<Longrightarrow>
   length (join sep xs) = sum_list (map length xs) + (length xs - 1) * length sep"
  by (induction sep xs rule: join.induct) simp_all

lemma set_join:
  "set (join sep xs) \<subseteq> set sep \<union> \<Union> (set ` set xs)"
  by (induction sep xs rule: join.induct) auto

lemma blocksOf4_lengths:
  "sum_list (map length (blocksOf4 s)) = length s"
proof (induction s rule: blocksOf4.induct)
  case (1 s)
  show ?case
  proof (cases "s = []")
    case True
    then show ?thesis by (simp add: blocksOf4.simps)
  next
    case False
    have "sum_list (map length (blocksOf4 s))
          = length (take 4 s) + sum_list (map length (blocksOf4 (drop 4 s)))"
      using False by (subst blocksOf4.simps) simp
    also have "\<dots> = length (take 4 s) + length (drop 4 s)"
      using "1.IH" [OF False] by simp
    also have "\<dots> = length s" by simp
    finally show ?thesis .
  qed
qed

lemma quarter_step: "0 < (n::nat) \<Longrightarrow> Suc ((n - 4 + 3) div 4) = (n + 3) div 4"
proof (cases "4 \<le> n")
  case True
  then obtain m where "n = m + 4" by (metis le_add_diff_inverse2)
  then show ?thesis by simp
next
  case False
  assume "0 < n"
  with False have "n = 1 \<or> n = 2 \<or> n = 3" by linarith
  then show ?thesis by auto
qed

lemma quarter_two: "4 < (n::nat) \<Longrightarrow> 2 \<le> (n + 3) div 4"
  using div_le_mono [of 8 "n + 3" 4] by simp

lemma blocksOf4_count:
  "length (blocksOf4 s) = (length s + 3) div 4"
proof (induction s rule: blocksOf4.induct)
  case (1 s)
  show ?case
  proof (cases "s = []")
    case True
    then show ?thesis by (simp add: blocksOf4.simps)
  next
    case False
    have "length (blocksOf4 s) = Suc (length (blocksOf4 (drop 4 s)))"
      using False by (subst blocksOf4.simps) simp
    also have "\<dots> = Suc ((length s - 4 + 3) div 4)"
      using "1.IH" [OF False] by simp
    also have "\<dots> = (length s + 3) div 4"
      using False by (intro quarter_step) simp
    finally show ?thesis .
  qed
qed

lemma concat_blocksOf4: "concat (blocksOf4 s) = s"
proof (induction s rule: blocksOf4.induct)
  case (1 s)
  show ?case
  proof (cases "s = []")
    case True
    then show ?thesis by (simp add: blocksOf4.simps)
  next
    case False
    then show ?thesis using "1.IH" [OF False] by (subst blocksOf4.simps) simp
  qed
qed

lemma blocksOf4_block_length:
  "b \<in> set (blocksOf4 s) \<Longrightarrow> 1 \<le> length b \<and> length b \<le> 4"
proof (induction s rule: blocksOf4.induct)
  case (1 s)
  show ?case
  proof (cases "s = []")
    case True
    then show ?thesis using "1.prems" by (simp add: blocksOf4.simps)
  next
    case False
    have "b = take 4 s \<or> b \<in> set (blocksOf4 (drop 4 s))"
      using "1.prems" False by (subst (asm) blocksOf4.simps) simp
    then show ?thesis
    proof
      assume "b = take 4 s"
      then show ?thesis using False by (cases s) simp_all
    next
      assume "b \<in> set (blocksOf4 (drop 4 s))"
      then show ?thesis using "1.IH" [OF False] by simp
    qed
  qed
qed

lemma formatFingerprint_noLT:
  assumes "\<forall>u\<in>set s. \<not> isLineTerminator u"
  shows "formatFingerprint s = join (js '' '') (blocksOf4 s)"
proof (cases "s = []")
  case True
  then show ?thesis by (simp add: formatFingerprint_def blocksOf4.simps)
next
  case False
  then have "blocksOf4 s = take 4 s # blocksOf4 (drop 4 s)"
    by (subst blocksOf4.simps) simp
  then show ?thesis
    using matchAll_noLT [OF assms] by (simp add: formatFingerprint_def)
qed

lemma length_formatFingerprint:
  assumes "\<forall>u\<in>set s. \<not> isLineTerminator u" and "s \<noteq> []"
  shows "length (formatFingerprint s) = length s + (length s + 3) div 4 - 1"
proof -
  have ne: "blocksOf4 s \<noteq> []" using assms(2) by (subst blocksOf4.simps) simp
  show ?thesis
    unfolding formatFingerprint_noLT [OF assms(1)] length_join [OF ne]
      blocksOf4_lengths blocksOf4_count
    by (simp add: js_def)
qed

lemma formatFingerprint_keeps_noLT:
  assumes "\<forall>u\<in>set s. \<not> isLineTerminator u"
  shows "\<forall>u\<in>set (formatFingerprint s). \<not> isLineTerminator u"
proof
  fix u assume "u \<in> set (formatFingerprint s)"
  then have "u \<in> set (js '' '') \<union> \<Union> (set ` set (blocksOf4 s))"
    unfolding formatFingerprint_noLT [OF assms] using set_join by blast
  moreover have "\<Union> (set ` set (blocksOf4 s)) = set s"
    using concat_blocksOf4 [of s] by (metis set_concat)
  moreover have "\<not> isLineTerminator (of_char CHR '' '')"
    by (simp add: isLineTerminator_def)
  ultimately show "\<not> isLineTerminator u"
    using assms by (auto simp: js_def)
qed

lemma formatFingerprint_short:
  assumes "\<forall>u\<in>set s. \<not> isLineTerminator u" and "length s \<le> 4"
  shows "formatFingerprint s = s"
proof (cases "s = []")
  case True
  then show ?thesis by (simp add: formatFingerprint_def)
next
  case False
  have "blocksOf4 s = [s]"
    using False assms(2) by (subst blocksOf4.simps) (simp add: blocksOf4.simps)
  then show ?thesis unfolding formatFingerprint_noLT [OF assms(1)] by simp
qed

lemma formatFingerprint_idem_iff:
  assumes "\<forall>u\<in>set s. \<not> isLineTerminator u"
  shows "formatFingerprint (formatFingerprint s) = formatFingerprint s \<longleftrightarrow> length s \<le> 4"
proof (cases "length s \<le> 4")
  case True
  then show ?thesis using formatFingerprint_short [OF assms] by simp
next
  case False
  then have ne: "s \<noteq> []" by auto
  let ?g = "formatFingerprint s"
  have lg: "length ?g = length s + (length s + 3) div 4 - 1"
    using length_formatFingerprint [OF assms ne] .
  have big: "4 < length ?g"
    using lg False quarter_two [of "length s"] by linarith
  then have gne: "?g \<noteq> []" by auto
  have "length (formatFingerprint ?g) = length ?g + (length ?g + 3) div 4 - 1"
    using length_formatFingerprint [OF formatFingerprint_keeps_noLT [OF assms] gne] .
  then have "length (formatFingerprint ?g) > length ?g"
    using big quarter_two [of "length ?g"] by linarith
  then have "formatFingerprint ?g \<noteq> ?g" by auto
  then show ?thesis using False by simp
qed

lemma isHexDigit_noLT: "isHexDigit u \<Longrightarrow> \<not> isLineTerminator u"
  unfolding isHexDigit_def isLineTerminator_def by auto

text \<open>
  C6, as the specification states it, fails: formatting is not idempotent. The spaces the
  first application inserts are regrouped by the second. On the six hexadecimal digits
  012345 the first application gives \<open>0123 45\<close> and the second \<open>0123  45\<close>.
\<close>

theorem formatFingerprint_not_idempotent:
  "formatFingerprint (formatFingerprint (js ''012345'')) \<noteq> formatFingerprint (js ''012345'')"
  by (simp add: formatFingerprint_def js_def dotRun_def isLineTerminator_def)

text \<open>
  C6 (amended). For a plain hexadecimal fingerprint \<open>f\<close>, \<open>formatFingerprint f\<close> is the
  blocks of four characters of \<open>f\<close> joined by single spaces, and applying
  \<open>formatFingerprint\<close> a second time gives the same string exactly when \<open>f\<close> has at most
  four characters.
\<close>

theorem formatFingerprint_hex_blocks:
  assumes "list_all isHexDigit f"
  shows "formatFingerprint f = join (js '' '') (blocksOf4 f)
         \<and> (formatFingerprint (formatFingerprint f) = formatFingerprint f \<longleftrightarrow> length f \<le> 4)"
proof -
  have n: "\<forall>u\<in>set f. \<not> isLineTerminator u"
    using assms isHexDigit_noLT by (auto simp: list_all_iff)
  show ?thesis
    using formatFingerprint_noLT [OF n] formatFingerprint_idem_iff [OF n] by simp
qed

theorem formatFingerprint_hex_blocks_witness:
  "list_all isHexDigit (js ''0123456789ABCDEF'')
   \<and> formatFingerprint (js ''0123456789ABCDEF'') = js ''0123 4567 89AB CDEF''
   \<and> formatFingerprint (formatFingerprint (js ''0123456789ABCDEF''))
       \<noteq> formatFingerprint (js ''0123456789ABCDEF'')"
proof -
  have h: "list_all isHexDigit (js ''0123456789ABCDEF'')"
    by (simp add: js_def isHexDigit_def)
  have b: "join (js '' '') (blocksOf4 (js ''0123456789ABCDEF'')) = js ''0123 4567 89AB CDEF''"
    by (simp add: blocksOf4.simps js_def)
  have l: "\<not> length (js ''0123456789ABCDEF'') \<le> 4"
    by (simp add: js_def)
  note r = formatFingerprint_hex_blocks [OF h]
  have t: "formatFingerprint (js ''0123456789ABCDEF'') = js ''0123 4567 89AB CDEF''"
    using r b by (simp only:)
  have i: "formatFingerprint (formatFingerprint (js ''0123456789ABCDEF''))
           \<noteq> formatFingerprint (js ''0123456789ABCDEF'')"
    using r l by blast
  show ?thesis using h t i by (intro conjI)
qed


section \<open>The wrapper functions and exceptions\<close>

lemma bindE_Inl [simp]: "bindE (Inl e) f = Inl e"
  by (simp add: bindE_def)

lemma bindE_Inr [simp]: "bindE (Inr v) f = f v"
  by (simp add: bindE_def)








lemma decryptMessage_passed:
  "decryptMessage_try lib c k p = Inr r \<Longrightarrow> decryptMessage lib c k p = Inr r"
  by (simp add: decryptMessage_def)



lemma signMessage_passed:
  "signMessage_try lib m k p d = Inr r \<Longrightarrow> signMessage lib m k p d = Inr r"
  by (simp add: signMessage_def)


lemma demoLib_fields [simp]:
  "readKey demoLib = demoReadKey"
  "readPrivateKey demoLib = demoReadPrivateKey"
  "decryptKey demoLib = demoDecryptKey"
  "createMessage demoLib = (\<lambda>t. Inr (None, t))"
  "createCleartextMessage demoLib = (\<lambda>t. Inr (t, []))"
  "readMessage demoLib = demoReadMessage"
  "readCleartextMessage demoLib = demoReadCleartextMessage"
  "encrypt demoLib = demoEncrypt"
  "decrypt demoLib = demoDecrypt"
  "sign demoLib = demoSign"
  "verify demoLib = demoVerify"
  "isDecrypted demoLib = (\<lambda>k. Inr (lock k = None))"
  "getUserIDs demoLib = (\<lambda>k. Inr [js ''Test User <test@example.com>''])"
  "settlesFirst demoLib = 0"
  by (simp_all add: demoLib_def)

lemma demo_strings:
  "js ''bob.pub'' \<noteq> js ''alice.pub''" "js ''bob.sec'' \<noteq> js ''alice.sec''"
  by (simp_all add: js_def)




section \<open>Encryption and decryption round trip\<close>

lemma textLib_fields [simp]:
  "readKey textLib = demoReadKey"
  "readPrivateKey textLib = demoReadPrivateKey"
  "createMessage textLib = (\<lambda>t. Inr (None, t))"
  "readMessage textLib = demoReadMessage"
  "encrypt textLib = demoEncrypt"
  "isDecrypted textLib = (\<lambda>k. Inr (lock k = None))"
  "settlesFirst textLib = 0"
  "decrypt textLib = (\<lambda>m k. case demoDecrypt m k of Inl e \<Rightarrow> Inl e | Inr t \<Rightarrow> Inr (nativeEOL t))"
  by (simp_all add: textLib_def demoLib_def)








section \<open>Passphrase handling\<close>

text \<open>
  C3. For a passphrase-protected private key (the library reads it and reports it not
  decrypted): called without a passphrase (\<^verbatim>\<open>undefined\<close> or the empty string),
  \<open>decryptMessage\<close> and \<open>signMessage\<close> return \<open>success = false\<close> with the message asking
  for the passphrase, and they do so whatever the unlocking, reading, decrypting and
  signing functions of the library are, so none of them is attempted. Called with a
  passphrase the library refuses (whatever it throws), they return \<open>success = false\<close> with
  the fixed incorrect-passphrase message, which carries no count; a later call is not
  affected, the functions keep no state.
\<close>

theorem passphrase_errors:
  assumes "readPrivateKey lib armoredPrivateKey = Inr priv"
    and "isDecrypted lib priv = Inr False"
  shows "(isFalsy passphrase \<longrightarrow>
            decryptMessage (lib\<lparr> decryptKey := dk, readMessage := rm, decrypt := dc \<rparr>)
                encryptedMessage armoredPrivateKey passphrase
              = Inr \<lparr> success = False, data = None,
                      error = Some (Str (js ''This private key is protected by a passphrase. Please enter your passphrase.'')) \<rparr>
          \<and> signMessage (lib\<lparr> decryptKey := dk, createMessage := cm,
                               createCleartextMessage := ccm, sign := sg \<rparr>)
                msg armoredPrivateKey passphrase detached
              = Inr \<lparr> success = False, data = None,
                      error = Some (Str (js ''This private key is protected by a passphrase. Please enter your passphrase.'')) \<rparr>)
       \<and> (\<not> isFalsy passphrase \<and> decryptKey lib priv (the passphrase) = Inl e \<longrightarrow>
            decryptMessage lib encryptedMessage armoredPrivateKey passphrase
              = Inr \<lparr> success = False, data = None,
                      error = Some (Str (js ''Incorrect passphrase. Please try again.'')) \<rparr>
          \<and> signMessage lib msg armoredPrivateKey passphrase detached
              = Inr \<lparr> success = False, data = None,
                      error = Some (Str (js ''Incorrect passphrase. Please try again.'')) \<rparr>)"
proof (intro conjI impI)
  assume f: "isFalsy passphrase"
  have "decryptMessage_try (lib\<lparr> decryptKey := dk, readMessage := rm, decrypt := dc \<rparr>)
          encryptedMessage armoredPrivateKey passphrase = Inr passphraseRequired"
    using assms f by (simp add: decryptMessage_try_def)
  then show "decryptMessage (lib\<lparr> decryptKey := dk, readMessage := rm, decrypt := dc \<rparr>)
                encryptedMessage armoredPrivateKey passphrase
              = Inr \<lparr> success = False, data = None,
                      error = Some (Str (js ''This private key is protected by a passphrase. Please enter your passphrase.'')) \<rparr>"
    unfolding passphraseRequired_def by (rule decryptMessage_passed)
  have "signMessage_try (lib\<lparr> decryptKey := dk, createMessage := cm,
                               createCleartextMessage := ccm, sign := sg \<rparr>)
          msg armoredPrivateKey passphrase detached = Inr passphraseRequired"
    using assms f by (simp add: signMessage_try_def)
  then show "signMessage (lib\<lparr> decryptKey := dk, createMessage := cm,
                               createCleartextMessage := ccm, sign := sg \<rparr>)
                msg armoredPrivateKey passphrase detached
              = Inr \<lparr> success = False, data = None,
                      error = Some (Str (js ''This private key is protected by a passphrase. Please enter your passphrase.'')) \<rparr>"
    unfolding passphraseRequired_def by (rule signMessage_passed)
next
  assume w: "\<not> isFalsy passphrase \<and> decryptKey lib priv (the passphrase) = Inl e"
  have "decryptMessage_try lib encryptedMessage armoredPrivateKey passphrase
          = Inr incorrectPassphrase"
    using assms w by (simp add: decryptMessage_try_def)
  then show "decryptMessage lib encryptedMessage armoredPrivateKey passphrase
              = Inr \<lparr> success = False, data = None,
                      error = Some (Str (js ''Incorrect passphrase. Please try again.'')) \<rparr>"
    unfolding incorrectPassphrase_def by (rule decryptMessage_passed)
  have "signMessage_try lib msg armoredPrivateKey passphrase detached
          = Inr incorrectPassphrase"
    using assms w by (simp add: signMessage_try_def)
  then show "signMessage lib msg armoredPrivateKey passphrase detached
              = Inr \<lparr> success = False, data = None,
                      error = Some (Str (js ''Incorrect passphrase. Please try again.'')) \<rparr>"
    unfolding incorrectPassphrase_def by (rule signMessage_passed)
qed

lemma bob_locked:
  "readPrivateKey demoLib (js ''bob.sec'') = Inr (DemoKey 2 (Some (js ''correct-passphrase'')))"
  "isDecrypted demoLib (DemoKey 2 (Some (js ''correct-passphrase''))) = Inr False"
  by (simp_all add: demoReadPrivateKey_def demo_strings)

theorem passphrase_errors_witness:
  "decryptMessage demoLib (of_char CHR ''E'' # 2 # js ''Hello'') (js ''bob.sec'') None
     = Inr \<lparr> success = False, data = None,
             error = Some (Str (js ''This private key is protected by a passphrase. Please enter your passphrase.'')) \<rparr>
   \<and> signMessage demoLib (js ''Hello'') (js ''bob.sec'') (Some []) False
     = Inr \<lparr> success = False, data = None,
             error = Some (Str (js ''This private key is protected by a passphrase. Please enter your passphrase.'')) \<rparr>
   \<and> decryptMessage demoLib (of_char CHR ''E'' # 2 # js ''Hello'') (js ''bob.sec'')
        (Some (js ''wrong-passphrase''))
     = Inr \<lparr> success = False, data = None,
             error = Some (Str (js ''Incorrect passphrase. Please try again.'')) \<rparr>
   \<and> signMessage demoLib (js ''Hello'') (js ''bob.sec'') (Some (js ''wrong-passphrase'')) False
     = Inr \<lparr> success = False, data = None,
             error = Some (Str (js ''Incorrect passphrase. Please try again.'')) \<rparr>"
proof -
  have same1: "demoLib\<lparr> decryptKey := demoDecryptKey, readMessage := demoReadMessage,
                        decrypt := demoDecrypt \<rparr> = demoLib"
    by (simp add: demoLib_def)
  have same2: "demoLib\<lparr> decryptKey := demoDecryptKey, createMessage := (\<lambda>t. Inr (None, t)),
                        createCleartextMessage := (\<lambda>t. Inr (t, [])), sign := demoSign \<rparr> = demoLib"
    by (simp add: demoLib_def)
  have none: "isFalsy None" and empty: "isFalsy (Some [])"
    by (simp_all add: isFalsy_def)
  have wrong: "\<not> isFalsy (Some (js ''wrong-passphrase''))
               \<and> decryptKey demoLib (DemoKey 2 (Some (js ''correct-passphrase'')))
                    (the (Some (js ''wrong-passphrase'')))
                  = Inl (ErrorObj (Str (js ''Incorrect key passphrase'')))"
    by (simp add: isFalsy_def demoDecryptKey_def js_def)
  note t = passphrase_errors [OF bob_locked]
  have a: "decryptMessage demoLib (of_char CHR ''E'' # 2 # js ''Hello'') (js ''bob.sec'') None
     = Inr \<lparr> success = False, data = None,
             error = Some (Str (js ''This private key is protected by a passphrase. Please enter your passphrase.'')) \<rparr>"
    using t [where passphrase = None and dk = demoDecryptKey and rm = demoReadMessage
        and dc = demoDecrypt] none unfolding same1 by blast
  have b: "signMessage demoLib (js ''Hello'') (js ''bob.sec'') (Some []) False
     = Inr \<lparr> success = False, data = None,
             error = Some (Str (js ''This private key is protected by a passphrase. Please enter your passphrase.'')) \<rparr>"
    using t [where passphrase = "Some []" and dk = demoDecryptKey
        and cm = "\<lambda>t. Inr (None, t)" and ccm = "\<lambda>t. Inr (t, [])" and sg = demoSign] empty
    unfolding same2 by blast
  have c: "decryptMessage demoLib (of_char CHR ''E'' # 2 # js ''Hello'') (js ''bob.sec'')
        (Some (js ''wrong-passphrase''))
     = Inr \<lparr> success = False, data = None,
             error = Some (Str (js ''Incorrect passphrase. Please try again.'')) \<rparr>"
   and d: "signMessage demoLib (js ''Hello'') (js ''bob.sec'') (Some (js ''wrong-passphrase'')) False
     = Inr \<lparr> success = False, data = None,
             error = Some (Str (js ''Incorrect passphrase. Please try again.'')) \<rparr>"
    using t [where passphrase = "Some (js ''wrong-passphrase'')"] wrong by blast+
  show ?thesis using a b c d by (intro conjI)
qed


section \<open>Failures of decryptMessage\<close>











section \<open>Error strings\<close>

lemma rejections_Inr [simp]: "rejections (map Inr vs) = []"
  by (induction vs) (simp_all add: rejections_def)

lemma fulfilments_Inr [simp]: "fulfilments (map Inr vs) = vs"
  by (induction vs) (simp_all add: fulfilments_def)


lemma rejections_nonempty: "Inl e \<in> set ps \<Longrightarrow> rejections ps \<noteq> []"
  by (induction ps) (auto simp: rejections_def split: sum.splits)

lemma promiseAll_rejected:
  "Inl e \<in> set ps \<Longrightarrow>
   promiseAll n ps = Inl (rejections ps ! (n mod length (rejections ps)))"
  using rejections_nonempty [of e ps] by (simp add: promiseAll_def)





lemma verifySignature_passed:
  "verifySignature_try lib s k = Inr r \<Longrightarrow> verifySignature lib s k = Inr r"
  by (simp add: verifySignature_def)








section \<open>Signing and verifying\<close>












section \<open>Clearing the forms\<close>

text \<open>
  C8. From every state, so from every reachable one, \<open>clearAll\<close> returns the hook to
  its initial idle state. In useDecrypt the state after \<open>clearAll\<close> is the initial state:
  the keys, the passphrase, the message and the output are empty, \<open>keyInfo\<close> and \<open>error\<close>
  are \<open>null\<close>, \<open>isLoading\<close> and \<open>needsPassphrase\<close> are false. In useEncrypt the initial
  value of \<open>recipients\<close> is \<^verbatim>\<open>[createRecipient()]\<close>, one blank recipient with a newly
  drawn id, and that is also its value after \<open>clearAll\<close>; the state after \<open>clearAll\<close> is
  the initial state of the hook, with the id drawn at that moment: the message, the
  output and the self key are empty, the errors and \<open>selfKeyInfo\<close> are \<open>null\<close>,
  \<open>isLoading\<close> and \<open>encryptToSelf\<close> are false.
\<close>

theorem clearAll_resets:
  "clearAllDecrypt s = initialDecryptState
   \<and> stepDecrypt DecryptClearAll (runDecrypt evs) = initialDecryptState
   \<and> initialDecryptState
       = \<lparr> dec_privateKey = [], dec_passphrase = [], dec_encryptedMessage = [],
           decryptedOutput = [], dec_keyInfo = None, dec_error = None,
           dec_isLoading = False, needsPassphrase = False \<rparr>
   \<and> clearAll rid t = initialEncryptState rid
   \<and> stepEncrypt (ClearAll rid) (runEncrypt rid0 evs') = initialEncryptState rid
   \<and> initialEncryptState rid
       = \<lparr> recipients = [\<lparr> rec_id = rid, rec_key = [], rec_keyInfo = None, rec_error = None \<rparr>],
           enc_message = [], encryptedOutput = [], enc_error = None, enc_isLoading = False,
           encryptToSelf = False, selfKey = [], selfKeyInfo = None, selfKeyError = None \<rparr>"
  by (simp add: clearAllDecrypt_def initialDecryptState_def clearAll_def
      initialEncryptState_def createRecipient_def)


section \<open>The number of recipients\<close>

text \<open>
  What holds of the number of recipients for every sequence of events: the events other
  than adding, removing and clearing keep the ids, and so the length, of a list that is
  not empty, and the list never has more than ten entries.
\<close>

lemma ids_update_map:
  "(\<And>r. rec_id (f r) = rec_id r) \<Longrightarrow>
   map rec_id (map (\<lambda>r. if rec_id r = i then f r else r) rs) = map rec_id rs"
  by (induction rs) auto

lemma setPublicKey_ids:
  "recipients s \<noteq> [] \<Longrightarrow> map rec_id (recipients (setPublicKey k rid s)) = map rec_id (recipients s)"
  by (cases "recipients s") (simp_all add: setPublicKey_def Let_def)

lemma setPublicKey_length:
  "length (recipients (setPublicKey k rid s)) = (if recipients s = [] then 1 else length (recipients s))"
  by (cases "recipients s") (simp_all add: setPublicKey_def Let_def)

lemma keepsCount_ids:
  "keepsCount e \<Longrightarrow> recipients s \<noteq> [] \<Longrightarrow>
   map rec_id (recipients (stepEncrypt e s)) = map rec_id (recipients s)"
  by (cases e)
    (simp_all add: setPublicKey_ids updateRecipient_def validateRecipient_rejected_def
      validateRecipient_accepted_def setEncryptToSelf_def setSelfKey_def
      validateSelfKey_rejected_def validateSelfKey_accepted_def setMessage_def
      encrypt_started_def encrypt_failed_def encrypt_keyInvalid_def encrypt_selfKeyInvalid_def
      encrypt_succeeded_def ids_update_map)

lemma keepsCount_length:
  "keepsCount e \<Longrightarrow> recipients s \<noteq> [] \<Longrightarrow>
   length (recipients (stepEncrypt e s)) = length (recipients s)"
  using keepsCount_ids [of e s] by (metis length_map)

lemma step_at_most_10:
  "length (recipients s) \<le> 10 \<Longrightarrow> length (recipients (stepEncrypt e s)) \<le> 10"
proof (cases "keepsCount e")
  case True
  assume le: "length (recipients s) \<le> 10"
  show ?thesis
  proof (cases "recipients s = []")
    case False
    then show ?thesis using keepsCount_length [OF True False] le by simp
  next
    case e: True
    then show ?thesis using True
      by (cases e)
        (simp_all add: setPublicKey_length updateRecipient_def validateRecipient_rejected_def
          validateRecipient_accepted_def setEncryptToSelf_def setSelfKey_def
          validateSelfKey_rejected_def validateSelfKey_accepted_def setMessage_def
          encrypt_started_def encrypt_failed_def encrypt_keyInvalid_def
          encrypt_selfKeyInvalid_def encrypt_succeeded_def)
  qed
next
  case False
  assume le: "length (recipients s) \<le> 10"
  from False show ?thesis
  proof (cases e)
    case (AddRecipient rid)
    then show ?thesis using le by (simp add: addRecipient_def)
  next
    case (RemoveRecipient i)
    have "length (filter (\<lambda>r. rec_id r \<noteq> i) (recipients s)) \<le> length (recipients s)"
      by (rule length_filter_le)
    then have "length (filter (\<lambda>r. rec_id r \<noteq> i) (recipients s)) \<le> 10"
      using le by linarith
    then show ?thesis using RemoveRecipient le by (simp add: removeRecipient_def)
  next
    case (ClearAll rid)
    then show ?thesis by (simp add: clearAll_def)
  qed simp_all
qed

lemma run_at_most_10:
  "length (recipients s) \<le> 10 \<Longrightarrow>
   length (recipients (foldl (\<lambda>s e. stepEncrypt e s) s evs)) \<le> 10"
  by (induction evs arbitrary: s) (simp_all add: step_at_most_10)

lemma recipients_at_most_10: "length (recipients (runEncrypt rid evs)) \<le> 10"
  unfolding runEncrypt_def by (rule run_at_most_10) (simp add: initialEncryptState_def)

lemma recipients_count_parts:
  "length (recipients (initialEncryptState rid)) = 1
   \<and> length (recipients (clearAll rid s)) = 1
   \<and> (length (recipients s) = 10 \<longrightarrow> addRecipient rid s = s)
   \<and> (length (recipients s) \<le> 1 \<longrightarrow> removeRecipient i s = s)"
  by (simp add: initialEncryptState_def clearAll_def addRecipient_def removeRecipient_def)

text \<open>
  C9 does not hold of the code: the list of recipients can become empty.
  \<open>removeRecipient\<close> filters the list by id, and the ids are drawn at random, without a
  check against those in use. When the draw of \<open>addRecipient\<close> repeats the id of the
  first recipient, \<open>removeRecipient\<close> of that id finds two recipients, passes its guard
  (which the source comments with "Keep at least one recipient") and removes both.
\<close>

theorem colliding_ids_empty_the_list:
  "recipients (initialEncryptState (js ''a'')) = [createRecipient (js ''a'')]
   \<and> recipients (addRecipient (js ''a'') (initialEncryptState (js ''a'')))
       = [createRecipient (js ''a''), createRecipient (js ''a'')]
   \<and> recipients (removeRecipient (js ''a'')
         (addRecipient (js ''a'') (initialEncryptState (js ''a'')))) = []
   \<and> recipients (runEncrypt (js ''a'') [AddRecipient (js ''a''), RemoveRecipient (js ''a'')]) = []"
  by (simp add: runEncrypt_def initialEncryptState_def addRecipient_def removeRecipient_def
      createRecipient_def)

end
